theory Spec2Isabelle
  imports Main "HOL-Library.Word"
begin

section \<open>Go values used by \<open>config/constructors.go\<close>\<close>

text \<open>
  A Go slice is either \<open>nil\<close> or a sequence of elements (possibly of length 0); \<open>len\<close>
  is 0 on both. The constructors only take \<open>len\<close> of their arguments and store the
  arguments as they are, so capacity and the backing array are left out.
\<close>

datatype 'a slice = Nil_slice | Slice "'a list"

fun len :: "'a slice \<Rightarrow> nat" where
  "len Nil_slice = 0"
| "len (Slice xs) = length xs"

type_synonym byte = "8 word"

text \<open>\<open>[]byte\<close>, one opaque blob, and \<open>[][]byte\<close>, a sequence of blobs.\<close>

type_synonym bytes = "byte slice"
type_synonym blobs = "bytes slice"

text \<open>
  \<open>map[string][][]byte\<close>: keys are unique and unordered. A field of map type holds
  \<open>None\<close> for the \<open>nil\<close> map of a zero-valued struct and \<open>Some m\<close> for an allocated
  map, so that \<open>Some Map.empty\<close> is the literal \<open>map[string][][]byte{}\<close>.
\<close>

type_synonym params = "string \<rightharpoonup> blobs"

text \<open>
  Modelled from the spec: the declarations of the three struct types are not in
  \<open>constructors.go\<close>. Their fields and field types are the ones the composite literals
  of \<open>constructors.go\<close> assign: \<open>DecryptConfig{Parameters: map[string][][]byte{...}}\<close>,
  \<open>EncryptConfig{Parameters: ep, DecryptConfig: dc}\<close> with \<open>dc\<close> a \<open>DecryptConfig\<close>
  value, and \<open>CryptoConfig{EncryptConfig: &EncryptConfig{...}, DecryptConfig: &dc}\<close>
  with two pointers. A pointer is \<open>None\<close> when \<open>nil\<close> and \<open>Some v\<close> when it points to
  the struct value \<open>v\<close>. The field names carry the prefixes \<open>dc_\<close>, \<open>ec_\<close>, \<open>cc_\<close>
  because \<open>Parameters\<close> and \<open>DecryptConfig\<close> each name fields of two structs.
\<close>

record DecryptConfig =
  dc_Parameters :: "params option"

record EncryptConfig =
  ec_Parameters :: "params option"
  ec_DecryptConfig :: DecryptConfig

record CryptoConfig =
  cc_EncryptConfig :: "EncryptConfig option"
  cc_DecryptConfig :: "DecryptConfig option"

text \<open>The zero values \<open>DecryptConfig{}\<close> and \<open>CryptoConfig{}\<close>.\<close>

definition DecryptConfig_zero :: DecryptConfig where
  "DecryptConfig_zero = \<lparr>dc_Parameters = None\<rparr>"

definition CryptoConfig_zero :: CryptoConfig where
  "CryptoConfig_zero = \<lparr>cc_EncryptConfig = None, cc_DecryptConfig = None\<rparr>"

text \<open>
  \<open>errors.New(msg)\<close>: an error value carrying its message. The call stack that
  \<open>github.com/pkg/errors\<close> records with it is left out.
\<close>

datatype error = New string

text \<open>
  A constructor returns the Go pair \<open>(CryptoConfig, error)\<close>; the \<open>nil\<close> error is
  \<open>None\<close>.
\<close>

type_synonym result = "CryptoConfig \<times> error option"

section \<open>The constructors\<close>

definition EncryptWithJwe :: "blobs \<Rightarrow> result" where
  "EncryptWithJwe pubKeys =
     (let dc = DecryptConfig_zero;
          ep = [''pubkeys'' \<mapsto> pubKeys]
      in (\<lparr>cc_EncryptConfig = Some \<lparr>ec_Parameters = Some ep, ec_DecryptConfig = dc\<rparr>,
           cc_DecryptConfig = Some dc\<rparr>, None))"

definition EncryptWithPkcs7 :: "blobs \<Rightarrow> result" where
  "EncryptWithPkcs7 x509s =
     (let dc = DecryptConfig_zero;
          ep = [''x509s'' \<mapsto> x509s]
      in (\<lparr>cc_EncryptConfig = Some \<lparr>ec_Parameters = Some ep, ec_DecryptConfig = dc\<rparr>,
           cc_DecryptConfig = Some dc\<rparr>, None))"

definition EncryptWithGpg :: "blobs \<Rightarrow> bytes \<Rightarrow> result" where
  "EncryptWithGpg gpgRecipients gpgPubRingFile =
     (let dc = DecryptConfig_zero;
          ep = [''gpg-recipients'' \<mapsto> gpgRecipients,
                ''gpg-pubkeyringfile'' \<mapsto> Slice [gpgPubRingFile]]
      in (\<lparr>cc_EncryptConfig = Some \<lparr>ec_Parameters = Some ep, ec_DecryptConfig = dc\<rparr>,
           cc_DecryptConfig = Some dc\<rparr>, None))"

definition EncryptWithPkcs11 :: "blobs \<Rightarrow> blobs \<Rightarrow> result" where
  "EncryptWithPkcs11 modules pins =
     (if len modules \<noteq> len pins then
        (CryptoConfig_zero, Some (New ''Length of modules should match length of pins''))
      else if len modules \<noteq> 1 then
        (CryptoConfig_zero, Some (New ''experimental, just support single module''))
      else
        (let dc = DecryptConfig_zero;
             ep = [''modules'' \<mapsto> modules, ''pins'' \<mapsto> pins]
         in (\<lparr>cc_EncryptConfig = Some \<lparr>ec_Parameters = Some ep, ec_DecryptConfig = dc\<rparr>,
              cc_DecryptConfig = Some dc\<rparr>, None)))"

definition DecryptWithPrivKeys :: "blobs \<Rightarrow> blobs \<Rightarrow> result" where
  "DecryptWithPrivKeys privKeys privKeysPasswords =
     (if len privKeys \<noteq> len privKeysPasswords then
        (CryptoConfig_zero,
         Some (New ''Length of privKeys should match length of privKeysPasswords''))
      else
        (let dc = \<lparr>dc_Parameters = Some [''privkeys'' \<mapsto> privKeys,
                                         ''privkeys-passwords'' \<mapsto> privKeysPasswords]\<rparr>;
             ep = Map.empty
         in (\<lparr>cc_EncryptConfig = Some \<lparr>ec_Parameters = Some ep, ec_DecryptConfig = dc\<rparr>,
              cc_DecryptConfig = Some dc\<rparr>, None)))"

definition DecryptWithX509s :: "blobs \<Rightarrow> result" where
  "DecryptWithX509s x509s =
     (let dc = \<lparr>dc_Parameters = Some [''x509s'' \<mapsto> x509s]\<rparr>;
          ep = Map.empty
      in (\<lparr>cc_EncryptConfig = Some \<lparr>ec_Parameters = Some ep, ec_DecryptConfig = dc\<rparr>,
           cc_DecryptConfig = Some dc\<rparr>, None))"

definition DecryptWithGpgPrivKeys :: "blobs \<Rightarrow> blobs \<Rightarrow> result" where
  "DecryptWithGpgPrivKeys gpgPrivKeys gpgPrivKeysPwds =
     (let dc = \<lparr>dc_Parameters = Some [''gpg-privatekeys'' \<mapsto> gpgPrivKeys,
                                      ''gpg-privatekeys-passwords'' \<mapsto> gpgPrivKeysPwds]\<rparr>;
          ep = Map.empty
      in (\<lparr>cc_EncryptConfig = Some \<lparr>ec_Parameters = Some ep, ec_DecryptConfig = dc\<rparr>,
           cc_DecryptConfig = Some dc\<rparr>, None))"

definition DecryptWithPkcs11 :: "blobs \<Rightarrow> blobs \<Rightarrow> result" where
  "DecryptWithPkcs11 modules pins =
     (let dc = \<lparr>dc_Parameters = Some [''modules'' \<mapsto> modules, ''pins'' \<mapsto> pins]\<rparr>;
          ep = Map.empty
      in (\<lparr>cc_EncryptConfig = Some \<lparr>ec_Parameters = Some ep, ec_DecryptConfig = dc\<rparr>,
           cc_DecryptConfig = Some dc\<rparr>, None))"

section \<open>The constructors with their allocations\<close>

text \<open>
  The definitions above return the configuration as a value, with each pointer and each
  map replaced by what it refers to. In Go every call allocates: a map literal makes a
  new map object, \<open>&EncryptConfig{...}\<close> makes a new struct object, and \<open>&dc\<close> is the
  address of the local variable \<open>dc\<close> of this call. The memory holds the allocated
  objects; an address is the position of an object in its list, and a new object is
  put at the end.
\<close>

type_synonym addr = nat

text \<open>
  The structs as they lie in memory: a field of map type holds a map reference and a
  field of pointer type holds an address (\<open>None\<close> is \<open>nil\<close>). The \<open>DecryptConfig\<close>
  field of an \<open>EncryptConfig\<close> is a struct stored by value.
\<close>

record DecryptConfig_obj =
  dco_Parameters :: "addr option"

record EncryptConfig_obj =
  eco_Parameters :: "addr option"
  eco_DecryptConfig :: DecryptConfig_obj

record CryptoConfig_obj =
  cco_EncryptConfig :: "addr option"
  cco_DecryptConfig :: "addr option"

record memory =
  maps :: "params list"
  decrypt_configs :: "DecryptConfig_obj list"
  encrypt_configs :: "EncryptConfig_obj list"

definition new_map :: "params \<Rightarrow> memory \<Rightarrow> addr \<times> memory" where
  "new_map m mem = (length (maps mem), mem\<lparr>maps := maps mem @ [m]\<rparr>)"

definition new_DecryptConfig :: "DecryptConfig_obj \<Rightarrow> memory \<Rightarrow> addr \<times> memory" where
  "new_DecryptConfig d mem =
     (length (decrypt_configs mem), mem\<lparr>decrypt_configs := decrypt_configs mem @ [d]\<rparr>)"

definition new_EncryptConfig :: "EncryptConfig_obj \<Rightarrow> memory \<Rightarrow> addr \<times> memory" where
  "new_EncryptConfig e mem =
     (length (encrypt_configs mem), mem\<lparr>encrypt_configs := encrypt_configs mem @ [e]\<rparr>)"

definition CryptoConfig_obj_zero :: CryptoConfig_obj where
  "CryptoConfig_obj_zero = \<lparr>cco_EncryptConfig = None, cco_DecryptConfig = None\<rparr>"

type_synonym result_mem = "(CryptoConfig_obj \<times> error option) \<times> memory"

text \<open>
  Each constructor again, in the order of its statements: \<open>dc\<close> is the value of the
  local variable, \<open>dc_addr\<close> its address \<open>&dc\<close>, and the \<open>EncryptConfig\<close> literal
  copies \<open>dc\<close> (and with it the map reference it holds). An error return allocates
  no configuration object.
\<close>

definition EncryptWithJwe_mem :: "blobs \<Rightarrow> memory \<Rightarrow> result_mem" where
  "EncryptWithJwe_mem pubKeys mem =
     (let dc = \<lparr>dco_Parameters = None\<rparr>;
          (dc_addr, mem) = new_DecryptConfig dc mem;
          (ep, mem) = new_map [''pubkeys'' \<mapsto> pubKeys] mem;
          (ec_addr, mem) =
             new_EncryptConfig \<lparr>eco_Parameters = Some ep, eco_DecryptConfig = dc\<rparr> mem
      in ((\<lparr>cco_EncryptConfig = Some ec_addr, cco_DecryptConfig = Some dc_addr\<rparr>, None), mem))"

definition EncryptWithPkcs7_mem :: "blobs \<Rightarrow> memory \<Rightarrow> result_mem" where
  "EncryptWithPkcs7_mem x509s mem =
     (let dc = \<lparr>dco_Parameters = None\<rparr>;
          (dc_addr, mem) = new_DecryptConfig dc mem;
          (ep, mem) = new_map [''x509s'' \<mapsto> x509s] mem;
          (ec_addr, mem) =
             new_EncryptConfig \<lparr>eco_Parameters = Some ep, eco_DecryptConfig = dc\<rparr> mem
      in ((\<lparr>cco_EncryptConfig = Some ec_addr, cco_DecryptConfig = Some dc_addr\<rparr>, None), mem))"

definition EncryptWithGpg_mem :: "blobs \<Rightarrow> bytes \<Rightarrow> memory \<Rightarrow> result_mem" where
  "EncryptWithGpg_mem gpgRecipients gpgPubRingFile mem =
     (let dc = \<lparr>dco_Parameters = None\<rparr>;
          (dc_addr, mem) = new_DecryptConfig dc mem;
          (ep, mem) = new_map [''gpg-recipients'' \<mapsto> gpgRecipients,
                               ''gpg-pubkeyringfile'' \<mapsto> Slice [gpgPubRingFile]] mem;
          (ec_addr, mem) =
             new_EncryptConfig \<lparr>eco_Parameters = Some ep, eco_DecryptConfig = dc\<rparr> mem
      in ((\<lparr>cco_EncryptConfig = Some ec_addr, cco_DecryptConfig = Some dc_addr\<rparr>, None), mem))"

definition EncryptWithPkcs11_mem :: "blobs \<Rightarrow> blobs \<Rightarrow> memory \<Rightarrow> result_mem" where
  "EncryptWithPkcs11_mem modules pins mem =
     (if len modules \<noteq> len pins then
        ((CryptoConfig_obj_zero,
          Some (New ''Length of modules should match length of pins'')), mem)
      else if len modules \<noteq> 1 then
        ((CryptoConfig_obj_zero,
          Some (New ''experimental, just support single module'')), mem)
      else
        (let dc = \<lparr>dco_Parameters = None\<rparr>;
             (dc_addr, mem) = new_DecryptConfig dc mem;
             (ep, mem) = new_map [''modules'' \<mapsto> modules, ''pins'' \<mapsto> pins] mem;
             (ec_addr, mem) =
                new_EncryptConfig \<lparr>eco_Parameters = Some ep, eco_DecryptConfig = dc\<rparr> mem
         in ((\<lparr>cco_EncryptConfig = Some ec_addr, cco_DecryptConfig = Some dc_addr\<rparr>, None),
             mem)))"

definition DecryptWithPrivKeys_mem :: "blobs \<Rightarrow> blobs \<Rightarrow> memory \<Rightarrow> result_mem" where
  "DecryptWithPrivKeys_mem privKeys privKeysPasswords mem =
     (if len privKeys \<noteq> len privKeysPasswords then
        ((CryptoConfig_obj_zero,
          Some (New ''Length of privKeys should match length of privKeysPasswords'')), mem)
      else
        (let (dp, mem) = new_map [''privkeys'' \<mapsto> privKeys,
                                  ''privkeys-passwords'' \<mapsto> privKeysPasswords] mem;
             dc = \<lparr>dco_Parameters = Some dp\<rparr>;
             (dc_addr, mem) = new_DecryptConfig dc mem;
             (ep, mem) = new_map Map.empty mem;
             (ec_addr, mem) =
                new_EncryptConfig \<lparr>eco_Parameters = Some ep, eco_DecryptConfig = dc\<rparr> mem
         in ((\<lparr>cco_EncryptConfig = Some ec_addr, cco_DecryptConfig = Some dc_addr\<rparr>, None),
             mem)))"

definition DecryptWithX509s_mem :: "blobs \<Rightarrow> memory \<Rightarrow> result_mem" where
  "DecryptWithX509s_mem x509s mem =
     (let (dp, mem) = new_map [''x509s'' \<mapsto> x509s] mem;
          dc = \<lparr>dco_Parameters = Some dp\<rparr>;
          (dc_addr, mem) = new_DecryptConfig dc mem;
          (ep, mem) = new_map Map.empty mem;
          (ec_addr, mem) =
             new_EncryptConfig \<lparr>eco_Parameters = Some ep, eco_DecryptConfig = dc\<rparr> mem
      in ((\<lparr>cco_EncryptConfig = Some ec_addr, cco_DecryptConfig = Some dc_addr\<rparr>, None), mem))"

definition DecryptWithGpgPrivKeys_mem :: "blobs \<Rightarrow> blobs \<Rightarrow> memory \<Rightarrow> result_mem" where
  "DecryptWithGpgPrivKeys_mem gpgPrivKeys gpgPrivKeysPwds mem =
     (let (dp, mem) = new_map [''gpg-privatekeys'' \<mapsto> gpgPrivKeys,
                               ''gpg-privatekeys-passwords'' \<mapsto> gpgPrivKeysPwds] mem;
          dc = \<lparr>dco_Parameters = Some dp\<rparr>;
          (dc_addr, mem) = new_DecryptConfig dc mem;
          (ep, mem) = new_map Map.empty mem;
          (ec_addr, mem) =
             new_EncryptConfig \<lparr>eco_Parameters = Some ep, eco_DecryptConfig = dc\<rparr> mem
      in ((\<lparr>cco_EncryptConfig = Some ec_addr, cco_DecryptConfig = Some dc_addr\<rparr>, None), mem))"

definition DecryptWithPkcs11_mem :: "blobs \<Rightarrow> blobs \<Rightarrow> memory \<Rightarrow> result_mem" where
  "DecryptWithPkcs11_mem modules pins mem =
     (let (dp, mem) = new_map [''modules'' \<mapsto> modules, ''pins'' \<mapsto> pins] mem;
          dc = \<lparr>dco_Parameters = Some dp\<rparr>;
          (dc_addr, mem) = new_DecryptConfig dc mem;
          (ep, mem) = new_map Map.empty mem;
          (ec_addr, mem) =
             new_EncryptConfig \<lparr>eco_Parameters = Some ep, eco_DecryptConfig = dc\<rparr> mem
      in ((\<lparr>cco_EncryptConfig = Some ec_addr, cco_DecryptConfig = Some dc_addr\<rparr>, None), mem))"

subsection \<open>The value a configuration denotes\<close>

text \<open>
  Reading an address gives the object stored there, or nothing when the address is
  not allocated.
\<close>

definition load :: "'a list \<Rightarrow> addr \<Rightarrow> 'a option" where
  "load xs a = (if a < length xs then Some (xs ! a) else None)"

text \<open>
  The deep value of a configuration in a memory follows every pointer and every map
  reference and gives the configuration as a value of the first model. Two
  configurations are structurally (deep) equal when their deep values are equal: both
  pointers \<open>nil\<close> or pointing to deep-equal structs, both maps \<open>nil\<close> or holding the
  same keys with the same sequences. The outer \<open>option\<close> is \<open>None\<close> when an address
  that is followed is not allocated.
\<close>

definition deep_map :: "memory \<Rightarrow> addr option \<Rightarrow> params option option" where
  "deep_map mem r =
     (case r of None \<Rightarrow> Some None | Some a \<Rightarrow> map_option Some (load (maps mem) a))"

definition deep_DecryptConfig :: "memory \<Rightarrow> DecryptConfig_obj \<Rightarrow> DecryptConfig option" where
  "deep_DecryptConfig mem d =
     map_option (\<lambda>p. \<lparr>dc_Parameters = p\<rparr>) (deep_map mem (dco_Parameters d))"

definition deep_EncryptConfig :: "memory \<Rightarrow> EncryptConfig_obj \<Rightarrow> EncryptConfig option" where
  "deep_EncryptConfig mem e =
     (case (deep_map mem (eco_Parameters e), deep_DecryptConfig mem (eco_DecryptConfig e)) of
        (Some p, Some d) \<Rightarrow> Some \<lparr>ec_Parameters = p, ec_DecryptConfig = d\<rparr>
      | _ \<Rightarrow> None)"

definition deep_CryptoConfig :: "memory \<Rightarrow> CryptoConfig_obj \<Rightarrow> CryptoConfig option" where
  "deep_CryptoConfig mem c =
     (let e = (case cco_EncryptConfig c of
                 None \<Rightarrow> Some None
               | Some a \<Rightarrow> (case load (encrypt_configs mem) a of
                             None \<Rightarrow> None
                           | Some eo \<Rightarrow> map_option Some (deep_EncryptConfig mem eo)));
          d = (case cco_DecryptConfig c of
                 None \<Rightarrow> Some None
               | Some a \<Rightarrow> (case load (decrypt_configs mem) a of
                             None \<Rightarrow> None
                           | Some do \<Rightarrow> map_option Some (deep_DecryptConfig mem do)))
      in case (e, d) of
           (Some ev, Some dv) \<Rightarrow> Some \<lparr>cc_EncryptConfig = ev, cc_DecryptConfig = dv\<rparr>
         | _ \<Rightarrow> None)"

text \<open>The result of one call, read in the memory the call leaves behind.\<close>

definition deep_result :: "result_mem \<Rightarrow> CryptoConfig option \<times> error option" where
  "deep_result r = (case r of ((c, e), mem) \<Rightarrow> (deep_CryptoConfig mem c, e))"

subsection \<open>The family of constructors\<close>

text \<open>
  One call of a constructor of the family: which constructor, and its arguments.
  \<open>constructor\<close> runs the call on values, \<open>constructor_mem\<close> runs it on a memory.
\<close>

datatype call =
    Jwe blobs
  | Pkcs7 blobs
  | Gpg blobs bytes
  | Pkcs11Enc blobs blobs
  | PrivKeys blobs blobs
  | X509s blobs
  | GpgPrivKeys blobs blobs
  | Pkcs11Dec blobs blobs

fun constructor :: "call \<Rightarrow> result" where
  "constructor (Jwe pubKeys) = EncryptWithJwe pubKeys"
| "constructor (Pkcs7 x509s) = EncryptWithPkcs7 x509s"
| "constructor (Gpg gpgRecipients gpgPubRingFile) = EncryptWithGpg gpgRecipients gpgPubRingFile"
| "constructor (Pkcs11Enc modules pins) = EncryptWithPkcs11 modules pins"
| "constructor (PrivKeys privKeys privKeysPasswords) =
     DecryptWithPrivKeys privKeys privKeysPasswords"
| "constructor (X509s x509s) = DecryptWithX509s x509s"
| "constructor (GpgPrivKeys gpgPrivKeys gpgPrivKeysPwds) =
     DecryptWithGpgPrivKeys gpgPrivKeys gpgPrivKeysPwds"
| "constructor (Pkcs11Dec modules pins) = DecryptWithPkcs11 modules pins"

fun constructor_mem :: "call \<Rightarrow> memory \<Rightarrow> result_mem" where
  "constructor_mem (Jwe pubKeys) = EncryptWithJwe_mem pubKeys"
| "constructor_mem (Pkcs7 x509s) = EncryptWithPkcs7_mem x509s"
| "constructor_mem (Gpg gpgRecipients gpgPubRingFile) =
     EncryptWithGpg_mem gpgRecipients gpgPubRingFile"
| "constructor_mem (Pkcs11Enc modules pins) = EncryptWithPkcs11_mem modules pins"
| "constructor_mem (PrivKeys privKeys privKeysPasswords) =
     DecryptWithPrivKeys_mem privKeys privKeysPasswords"
| "constructor_mem (X509s x509s) = DecryptWithX509s_mem x509s"
| "constructor_mem (GpgPrivKeys gpgPrivKeys gpgPrivKeysPwds) =
     DecryptWithGpgPrivKeys_mem gpgPrivKeys gpgPrivKeysPwds"
| "constructor_mem (Pkcs11Dec modules pins) = DecryptWithPkcs11_mem modules pins"

text \<open>
  Two calls one after the other, the second in the memory the first leaves behind:
  the two results and the final memory.
\<close>

definition call_twice ::
  "(memory \<Rightarrow> result_mem) \<Rightarrow> memory
     \<Rightarrow> (CryptoConfig_obj \<times> error option) \<times> (CryptoConfig_obj \<times> error option) \<times> memory" where
  "call_twice f mem =
     (let (r1, mem1) = f mem;
          (r2, mem2) = f mem1
      in (r1, r2, mem2))"

definition empty_memory :: memory where
  "empty_memory = \<lparr>maps = [], decrypt_configs = [], encrypt_configs = []\<rparr>"

section \<open>The error conditions of the specification\<close>

text \<open>
  The specification names two failure conditions. \<open>InvalidArgument\<close> is a mismatch of
  the lengths of two paired sequences: the errors of the first check of
  \<open>EncryptWithPkcs11\<close> and of the check of \<open>DecryptWithPrivKeys\<close>.
  \<open>UnsupportedConfiguration\<close> is the single-module restriction: the error of the second
  check of \<open>EncryptWithPkcs11\<close>.
\<close>

definition InvalidArgument :: "error \<Rightarrow> bool" where
  "InvalidArgument e \<longleftrightarrow>
     e = New ''Length of modules should match length of pins'' \<or>
     e = New ''Length of privKeys should match length of privKeysPasswords''"

definition UnsupportedConfiguration :: "error \<Rightarrow> bool" where
  "UnsupportedConfiguration e \<longleftrightarrow> e = New ''experimental, just support single module''"

section \<open>Properties of configurations\<close>

text \<open>
  Two sequences stored under the keys \<open>k1\<close> and \<open>k2\<close> of one parameter set are
  positionally paired; they agree when both are present with the same \<open>len\<close>. The
  pairs of the key table are modules with pins, private keys with their passwords, and
  GPG private keys with their passwords.
\<close>

definition pair_lengths_agree :: "params \<Rightarrow> string \<Rightarrow> string \<Rightarrow> bool" where
  "pair_lengths_agree m k1 k2 =
     (case (m k1, m k2) of (Some a, Some b) \<Rightarrow> len a = len b | _ \<Rightarrow> True)"

definition params_paired :: "params option \<Rightarrow> bool" where
  "params_paired ps =
     (case ps of
        None \<Rightarrow> True
      | Some m \<Rightarrow> pair_lengths_agree m ''modules'' ''pins'' \<and>
                 pair_lengths_agree m ''privkeys'' ''privkeys-passwords'' \<and>
                 pair_lengths_agree m ''gpg-privatekeys'' ''gpg-privatekeys-passwords'')"

text \<open>Every parameter set reachable from a configuration has its pairs in agreement.\<close>

definition config_paired :: "CryptoConfig \<Rightarrow> bool" where
  "config_paired cc =
     ((case cc_EncryptConfig cc of
         None \<Rightarrow> True
       | Some ec \<Rightarrow> params_paired (ec_Parameters ec) \<and>
                   params_paired (dc_Parameters (ec_DecryptConfig ec))) \<and>
      (case cc_DecryptConfig cc of
         None \<Rightarrow> True
       | Some dc \<Rightarrow> params_paired (dc_Parameters dc)))"

text \<open>
  Both pointers of the configuration are set, and the \<open>DecryptConfig\<close> stored by value
  inside the encrypt configuration equals the one the top-level pointer refers to.
\<close>

definition embedded_is_toplevel :: "CryptoConfig \<Rightarrow> bool" where
  "embedded_is_toplevel cc =
     (case (cc_EncryptConfig cc, cc_DecryptConfig cc) of
        (Some ec, Some dc) \<Rightarrow> ec_DecryptConfig ec = dc
      | _ \<Rightarrow> False)"

text \<open>Sample blobs for concrete scenarios: the ASCII bytes of short names.\<close>

definition blob_mod1 :: bytes where "blob_mod1 = Slice [0x6D, 0x6F, 0x64, 0x31]"
definition blob_mod2 :: bytes where "blob_mod2 = Slice [0x6D, 0x6F, 0x64, 0x32]"
definition blob_pin1 :: bytes where "blob_pin1 = Slice [0x31, 0x32, 0x33, 0x34]"
definition blob_pin2 :: bytes where "blob_pin2 = Slice [0x35, 0x36, 0x37, 0x38]"
definition blob_key1 :: bytes where "blob_key1 = Slice [0x6B, 0x65, 0x79, 0x31]"
definition blob_key2 :: bytes where "blob_key2 = Slice [0x6B, 0x65, 0x79, 0x32]"
definition blob_cert1 :: bytes where "blob_cert1 = Slice [0x63, 0x65, 0x72, 0x74, 0x31]"

section \<open>The PKCS#11 encrypt constructor\<close>

text \<open>
  Claim C3. When the module sequence and the pin sequence both have length 1,
  \<open>EncryptWithPkcs11\<close> returns the \<open>nil\<close> error and a configuration whose encrypt
  parameter set maps \<open>"modules"\<close> and \<open>"pins"\<close> to the two arguments as they were
  given and has no other key, and whose decrypt configuration is the empty
  \<open>DecryptConfig{}\<close>.
\<close>

theorem EncryptWithPkcs11_single:
  assumes "len modules = 1" and "len pins = 1"
  shows "\<exists>ec. EncryptWithPkcs11 modules pins =
            (\<lparr>cc_EncryptConfig = Some ec, cc_DecryptConfig = Some DecryptConfig_zero\<rparr>, None)
          \<and> ec_Parameters ec = Some [''modules'' \<mapsto> modules, ''pins'' \<mapsto> pins]
          \<and> the (ec_Parameters ec) ''modules'' = Some modules
          \<and> the (ec_Parameters ec) ''pins'' = Some pins
          \<and> dom (the (ec_Parameters ec)) = {''modules'', ''pins''}
          \<and> dc_Parameters DecryptConfig_zero = None"
  using assms by (auto simp add: EncryptWithPkcs11_def Let_def DecryptConfig_zero_def)

theorem EncryptWithPkcs11_single_witness:
  "len (Slice [blob_mod1]) = 1 \<and> len (Slice [blob_pin1]) = 1 \<and>
   (\<exists>ec. EncryptWithPkcs11 (Slice [blob_mod1]) (Slice [blob_pin1]) =
            (\<lparr>cc_EncryptConfig = Some ec, cc_DecryptConfig = Some DecryptConfig_zero\<rparr>, None)
          \<and> the (ec_Parameters ec) ''modules'' = Some (Slice [blob_mod1])
          \<and> the (ec_Parameters ec) ''pins'' = Some (Slice [blob_pin1]))"
  using EncryptWithPkcs11_single [of "Slice [blob_mod1]" "Slice [blob_pin1]"]
  by auto

text \<open>
  Claim C2. Whenever the module sequence and the pin sequence differ in length,
  whatever the two lengths are, \<open>EncryptWithPkcs11\<close> returns the zero configuration
  and the length-mismatch error, which is \<open>InvalidArgument\<close> and not
  \<open>UnsupportedConfiguration\<close>. The length check comes first: two modules with one pin
  give the length-mismatch error, not the single-module error.
\<close>

theorem EncryptWithPkcs11_length_mismatch:
  "(len modules \<noteq> len pins \<longrightarrow>
      (\<exists>e. EncryptWithPkcs11 modules pins = (CryptoConfig_zero, Some e) \<and>
           InvalidArgument e \<and> \<not> UnsupportedConfiguration e)) \<and>
   (\<exists>e. EncryptWithPkcs11 (Slice [mod1, mod2]) (Slice [pin1]) = (CryptoConfig_zero, Some e) \<and>
        InvalidArgument e \<and> \<not> UnsupportedConfiguration e)"
  by (simp add: EncryptWithPkcs11_def InvalidArgument_def UnsupportedConfiguration_def)

theorem EncryptWithPkcs11_length_mismatch_witness:
  "len (Slice [blob_mod1, blob_mod2]) \<noteq> len (Slice [blob_pin1]) \<and>
   (\<exists>e. EncryptWithPkcs11 (Slice [blob_mod1, blob_mod2]) (Slice [blob_pin1]) =
          (CryptoConfig_zero, Some e) \<and>
        InvalidArgument e \<and> \<not> UnsupportedConfiguration e)"
  using EncryptWithPkcs11_length_mismatch
          [of "Slice [blob_mod1, blob_mod2]" "Slice [blob_pin1]"]
  by simp

text \<open>
  Claim C4. When the module sequence and the pin sequence have the same length and
  that length is 2 or more, \<open>EncryptWithPkcs11\<close> returns the single-module error,
  which is \<open>UnsupportedConfiguration\<close>, together with the zero configuration, whose two
  pointers are \<open>nil\<close>.
\<close>

theorem EncryptWithPkcs11_multiple_modules:
  assumes "len modules = len pins" and "2 \<le> len modules"
  shows "\<exists>e. EncryptWithPkcs11 modules pins = (CryptoConfig_zero, Some e) \<and>
             UnsupportedConfiguration e \<and> \<not> InvalidArgument e \<and>
             cc_EncryptConfig CryptoConfig_zero = None \<and>
             cc_DecryptConfig CryptoConfig_zero = None"
  using assms
  by (simp add: EncryptWithPkcs11_def InvalidArgument_def UnsupportedConfiguration_def
                CryptoConfig_zero_def)

theorem EncryptWithPkcs11_multiple_modules_witness:
  "len (Slice [blob_mod1, blob_mod2]) = len (Slice [blob_pin1, blob_pin2]) \<and>
   2 \<le> len (Slice [blob_mod1, blob_mod2]) \<and>
   (\<exists>e. EncryptWithPkcs11 (Slice [blob_mod1, blob_mod2]) (Slice [blob_pin1, blob_pin2]) =
          (CryptoConfig_zero, Some e) \<and>
        UnsupportedConfiguration e)"
  using EncryptWithPkcs11_multiple_modules
          [of "Slice [blob_mod1, blob_mod2]" "Slice [blob_pin1, blob_pin2]"]
  by auto

text \<open>
  Claim C9. When the module sequence and the pin sequence both have length 0 (each
  either \<open>nil\<close> or empty), the length check passes and \<open>EncryptWithPkcs11\<close> returns the
  single-module error, which is \<open>UnsupportedConfiguration\<close>, and the zero configuration:
  it asks for exactly one module, so equal lengths are not enough to succeed.
\<close>

theorem EncryptWithPkcs11_no_module:
  assumes "len modules = 0" and "len pins = 0"
  shows "len modules = len pins \<and>
         (\<exists>e. EncryptWithPkcs11 modules pins = (CryptoConfig_zero, Some e) \<and>
              UnsupportedConfiguration e \<and> \<not> InvalidArgument e)"
  using assms
  by (simp add: EncryptWithPkcs11_def InvalidArgument_def UnsupportedConfiguration_def)

theorem EncryptWithPkcs11_no_module_witness:
  "len (Slice [] :: blobs) = 0 \<and> len (Nil_slice :: blobs) = 0 \<and>
   (\<exists>e. EncryptWithPkcs11 (Slice []) Nil_slice = (CryptoConfig_zero, Some e) \<and>
        UnsupportedConfiguration e) \<and>
   (\<exists>e. EncryptWithPkcs11 (Slice []) (Slice []) = (CryptoConfig_zero, Some e) \<and>
        UnsupportedConfiguration e)"
  using EncryptWithPkcs11_no_module [of "Slice []" "Nil_slice"]
        EncryptWithPkcs11_no_module [of "Slice []" "Slice []"]
  by auto

section \<open>The decrypt constructors\<close>

text \<open>
  Claim C5. \<open>DecryptWithPrivKeys\<close> returns an error exactly when the private-key
  sequence and the password sequence differ in length, and that error is
  \<open>InvalidArgument\<close>. When the lengths are equal, both being 0 included, it returns the
  \<open>nil\<close> error and a configuration whose decrypt parameter set maps \<open>"privkeys"\<close> and
  \<open>"privkeys-passwords"\<close> to the two arguments as they were given.
\<close>

theorem DecryptWithPrivKeys_lengths:
  "(snd (DecryptWithPrivKeys privKeys pwds) \<noteq> None \<longleftrightarrow> len privKeys \<noteq> len pwds) \<and>
   ((\<exists>e. DecryptWithPrivKeys privKeys pwds = (CryptoConfig_zero, Some e) \<and> InvalidArgument e)
      \<longleftrightarrow> len privKeys \<noteq> len pwds) \<and>
   (len privKeys = len pwds \<longrightarrow>
      (\<exists>ec dc. DecryptWithPrivKeys privKeys pwds =
                 (\<lparr>cc_EncryptConfig = Some ec, cc_DecryptConfig = Some dc\<rparr>, None) \<and>
               dc_Parameters dc =
                 Some [''privkeys'' \<mapsto> privKeys, ''privkeys-passwords'' \<mapsto> pwds] \<and>
               the (dc_Parameters dc) ''privkeys'' = Some privKeys \<and>
               the (dc_Parameters dc) ''privkeys-passwords'' = Some pwds))"
  by (simp add: DecryptWithPrivKeys_def InvalidArgument_def CryptoConfig_zero_def Let_def)

theorem DecryptWithPrivKeys_lengths_witness:
  "len (Slice [] :: blobs) = len (Nil_slice :: blobs) \<and>
   (\<exists>ec dc. DecryptWithPrivKeys (Slice []) Nil_slice =
              (\<lparr>cc_EncryptConfig = Some ec, cc_DecryptConfig = Some dc\<rparr>, None) \<and>
            the (dc_Parameters dc) ''privkeys'' = Some (Slice []) \<and>
            the (dc_Parameters dc) ''privkeys-passwords'' = Some Nil_slice) \<and>
   len (Slice [blob_key1, blob_key2]) = len (Slice [blob_pin1, Nil_slice]) \<and>
   (\<exists>ec dc. DecryptWithPrivKeys (Slice [blob_key1, blob_key2]) (Slice [blob_pin1, Nil_slice]) =
              (\<lparr>cc_EncryptConfig = Some ec, cc_DecryptConfig = Some dc\<rparr>, None) \<and>
            the (dc_Parameters dc) ''privkeys'' = Some (Slice [blob_key1, blob_key2]) \<and>
            the (dc_Parameters dc) ''privkeys-passwords'' = Some (Slice [blob_pin1, Nil_slice])) \<and>
   len (Slice [blob_key1, blob_key2]) \<noteq> len (Slice [blob_pin1]) \<and>
   (\<exists>e. DecryptWithPrivKeys (Slice [blob_key1, blob_key2]) (Slice [blob_pin1]) =
          (CryptoConfig_zero, Some e) \<and> InvalidArgument e)"
  using DecryptWithPrivKeys_lengths [of "Slice []" Nil_slice]
        DecryptWithPrivKeys_lengths [of "Slice [blob_key1, blob_key2]" "Slice [blob_pin1, Nil_slice]"]
        DecryptWithPrivKeys_lengths [of "Slice [blob_key1, blob_key2]" "Slice [blob_pin1]"]
  by auto

text \<open>
  Claim C6. \<open>DecryptWithPkcs11\<close> and \<open>DecryptWithGpgPrivKeys\<close> return the \<open>nil\<close> error
  for every pair of sequences, of equal length or not: neither compares the two
  lengths. Each stores its two arguments in the decrypt parameter set as given.
\<close>

theorem Decrypt_Pkcs11_Gpg_no_length_check:
  "snd (DecryptWithPkcs11 modules pins) = None \<and>
   (\<exists>ec dc. fst (DecryptWithPkcs11 modules pins) =
              \<lparr>cc_EncryptConfig = Some ec, cc_DecryptConfig = Some dc\<rparr> \<and>
            dc_Parameters dc = Some [''modules'' \<mapsto> modules, ''pins'' \<mapsto> pins]) \<and>
   snd (DecryptWithGpgPrivKeys gpgPrivKeys gpgPrivKeysPwds) = None \<and>
   (\<exists>ec dc. fst (DecryptWithGpgPrivKeys gpgPrivKeys gpgPrivKeysPwds) =
              \<lparr>cc_EncryptConfig = Some ec, cc_DecryptConfig = Some dc\<rparr> \<and>
            dc_Parameters dc = Some [''gpg-privatekeys'' \<mapsto> gpgPrivKeys,
                                     ''gpg-privatekeys-passwords'' \<mapsto> gpgPrivKeysPwds])"
  by (simp add: DecryptWithPkcs11_def DecryptWithGpgPrivKeys_def Let_def)

text \<open>
  Claim C7. For every certificate list, \<open>DecryptWithX509s\<close> returns the \<open>nil\<close> error
  and a configuration whose decrypt parameter set maps \<open>"x509s"\<close> to the list as
  given, and whose encrypt configuration holds an allocated map without any key (not
  the \<open>nil\<close> map). For the one-element list \<open>[cert1]\<close>, looking up \<open>"x509s"\<close> in the
  decrypt parameter set gives \<open>[cert1]\<close>.
\<close>

theorem DecryptWithX509s_result:
  "(\<exists>ec dc. DecryptWithX509s x509s =
              (\<lparr>cc_EncryptConfig = Some ec, cc_DecryptConfig = Some dc\<rparr>, None) \<and>
            dc_Parameters dc = Some [''x509s'' \<mapsto> x509s] \<and>
            the (dc_Parameters dc) ''x509s'' = Some x509s \<and>
            ec_Parameters ec = Some Map.empty \<and>
            ec_Parameters ec \<noteq> None \<and>
            dom (the (ec_Parameters ec)) = {}) \<and>
   (\<exists>dc. cc_DecryptConfig (fst (DecryptWithX509s (Slice [cert1]))) = Some dc \<and>
         the (dc_Parameters dc) ''x509s'' = Some (Slice [cert1]))"
  by (simp add: DecryptWithX509s_def Let_def)

section \<open>All constructors\<close>

text \<open>
  Claim C10. In every configuration a constructor returns with the \<open>nil\<close> error, the
  \<open>DecryptConfig\<close> held inside the encrypt configuration is equal to the one the
  top-level \<open>DecryptConfig\<close> pointer refers to. For each of the four decrypt
  constructors the embedded one therefore carries the full decrypt parameter set, not
  a \<open>nil\<close> or empty one: \<open>"privkeys"\<close> and \<open>"privkeys-passwords"\<close> for
  \<open>DecryptWithPrivKeys\<close>, \<open>"x509s"\<close> for \<open>DecryptWithX509s\<close>, \<open>"gpg-privatekeys"\<close>
  and \<open>"gpg-privatekeys-passwords"\<close> for \<open>DecryptWithGpgPrivKeys\<close>, \<open>"modules"\<close> and
  \<open>"pins"\<close> for \<open>DecryptWithPkcs11\<close>.
\<close>

theorem embedded_DecryptConfig_is_toplevel:
  "(snd (EncryptWithJwe pubKeys) = None \<longrightarrow>
      embedded_is_toplevel (fst (EncryptWithJwe pubKeys))) \<and>
   (snd (EncryptWithPkcs7 x509s) = None \<longrightarrow>
      embedded_is_toplevel (fst (EncryptWithPkcs7 x509s))) \<and>
   (snd (EncryptWithGpg gpgRecipients gpgPubRingFile) = None \<longrightarrow>
      embedded_is_toplevel (fst (EncryptWithGpg gpgRecipients gpgPubRingFile))) \<and>
   (snd (EncryptWithPkcs11 modules pins) = None \<longrightarrow>
      embedded_is_toplevel (fst (EncryptWithPkcs11 modules pins))) \<and>
   (snd (DecryptWithPrivKeys privKeys pwds) = None \<longrightarrow>
      embedded_is_toplevel (fst (DecryptWithPrivKeys privKeys pwds)) \<and>
      (\<exists>ec. cc_EncryptConfig (fst (DecryptWithPrivKeys privKeys pwds)) = Some ec \<and>
            dc_Parameters (ec_DecryptConfig ec) =
              Some [''privkeys'' \<mapsto> privKeys, ''privkeys-passwords'' \<mapsto> pwds] \<and>
            dc_Parameters (ec_DecryptConfig ec) \<noteq> Some Map.empty \<and>
            dc_Parameters (ec_DecryptConfig ec) \<noteq> None)) \<and>
   (snd (DecryptWithX509s certs) = None \<longrightarrow>
      embedded_is_toplevel (fst (DecryptWithX509s certs)) \<and>
      (\<exists>ec. cc_EncryptConfig (fst (DecryptWithX509s certs)) = Some ec \<and>
            dc_Parameters (ec_DecryptConfig ec) = Some [''x509s'' \<mapsto> certs] \<and>
            dc_Parameters (ec_DecryptConfig ec) \<noteq> Some Map.empty \<and>
            dc_Parameters (ec_DecryptConfig ec) \<noteq> None)) \<and>
   (snd (DecryptWithGpgPrivKeys gpgPrivKeys gpgPrivKeysPwds) = None \<longrightarrow>
      embedded_is_toplevel (fst (DecryptWithGpgPrivKeys gpgPrivKeys gpgPrivKeysPwds)) \<and>
      (\<exists>ec. cc_EncryptConfig (fst (DecryptWithGpgPrivKeys gpgPrivKeys gpgPrivKeysPwds)) = Some ec \<and>
            dc_Parameters (ec_DecryptConfig ec) =
              Some [''gpg-privatekeys'' \<mapsto> gpgPrivKeys,
                    ''gpg-privatekeys-passwords'' \<mapsto> gpgPrivKeysPwds] \<and>
            dc_Parameters (ec_DecryptConfig ec) \<noteq> Some Map.empty \<and>
            dc_Parameters (ec_DecryptConfig ec) \<noteq> None)) \<and>
   (snd (DecryptWithPkcs11 dmodules dpins) = None \<longrightarrow>
      embedded_is_toplevel (fst (DecryptWithPkcs11 dmodules dpins)) \<and>
      (\<exists>ec. cc_EncryptConfig (fst (DecryptWithPkcs11 dmodules dpins)) = Some ec \<and>
            dc_Parameters (ec_DecryptConfig ec) =
              Some [''modules'' \<mapsto> dmodules, ''pins'' \<mapsto> dpins] \<and>
            dc_Parameters (ec_DecryptConfig ec) \<noteq> Some Map.empty \<and>
            dc_Parameters (ec_DecryptConfig ec) \<noteq> None))"
proof -
  have ne: "[''privkeys'' \<mapsto> privKeys, ''privkeys-passwords'' \<mapsto> pwds] \<noteq> Map.empty"
           "[''x509s'' \<mapsto> certs] \<noteq> Map.empty"
           "[''gpg-privatekeys'' \<mapsto> gpgPrivKeys,
             ''gpg-privatekeys-passwords'' \<mapsto> gpgPrivKeysPwds] \<noteq> Map.empty"
           "[''modules'' \<mapsto> dmodules, ''pins'' \<mapsto> dpins] \<noteq> Map.empty"
    by simp_all
  then show ?thesis
    by (simp add: embedded_is_toplevel_def EncryptWithJwe_def EncryptWithPkcs7_def
          EncryptWithGpg_def EncryptWithPkcs11_def DecryptWithPrivKeys_def
          DecryptWithX509s_def DecryptWithGpgPrivKeys_def DecryptWithPkcs11_def Let_def)
qed

theorem embedded_DecryptConfig_is_toplevel_witness:
  "snd (EncryptWithJwe (Slice [blob_key1, blob_key2])) = None \<and>
   embedded_is_toplevel (fst (EncryptWithJwe (Slice [blob_key1, blob_key2]))) \<and>
   snd (EncryptWithPkcs7 (Slice [blob_cert1])) = None \<and>
   embedded_is_toplevel (fst (EncryptWithPkcs7 (Slice [blob_cert1]))) \<and>
   snd (EncryptWithGpg (Slice [blob_key1]) blob_key2) = None \<and>
   embedded_is_toplevel (fst (EncryptWithGpg (Slice [blob_key1]) blob_key2)) \<and>
   snd (EncryptWithPkcs11 (Slice [blob_mod1]) (Slice [blob_pin1])) = None \<and>
   embedded_is_toplevel (fst (EncryptWithPkcs11 (Slice [blob_mod1]) (Slice [blob_pin1]))) \<and>
   snd (DecryptWithPrivKeys (Slice [blob_key1]) (Slice [blob_pin1])) = None \<and>
   embedded_is_toplevel (fst (DecryptWithPrivKeys (Slice [blob_key1]) (Slice [blob_pin1]))) \<and>
   (\<exists>ec. cc_EncryptConfig (fst (DecryptWithPrivKeys (Slice [blob_key1]) (Slice [blob_pin1])))
           = Some ec \<and>
         dc_Parameters (ec_DecryptConfig ec) =
           Some [''privkeys'' \<mapsto> Slice [blob_key1],
                 ''privkeys-passwords'' \<mapsto> Slice [blob_pin1]]) \<and>
   snd (DecryptWithX509s (Slice [blob_cert1])) = None \<and>
   embedded_is_toplevel (fst (DecryptWithX509s (Slice [blob_cert1]))) \<and>
   (\<exists>ec. cc_EncryptConfig (fst (DecryptWithX509s (Slice [blob_cert1]))) = Some ec \<and>
         dc_Parameters (ec_DecryptConfig ec) = Some [''x509s'' \<mapsto> Slice [blob_cert1]]) \<and>
   snd (DecryptWithGpgPrivKeys (Slice [blob_key1]) (Slice [blob_pin1])) = None \<and>
   embedded_is_toplevel (fst (DecryptWithGpgPrivKeys (Slice [blob_key1]) (Slice [blob_pin1]))) \<and>
   (\<exists>ec. cc_EncryptConfig (fst (DecryptWithGpgPrivKeys (Slice [blob_key1]) (Slice [blob_pin1])))
           = Some ec \<and>
         dc_Parameters (ec_DecryptConfig ec) =
           Some [''gpg-privatekeys'' \<mapsto> Slice [blob_key1],
                 ''gpg-privatekeys-passwords'' \<mapsto> Slice [blob_pin1]]) \<and>
   snd (DecryptWithPkcs11 (Slice [blob_mod1, blob_mod2]) (Slice [blob_pin1])) = None \<and>
   embedded_is_toplevel
     (fst (DecryptWithPkcs11 (Slice [blob_mod1, blob_mod2]) (Slice [blob_pin1]))) \<and>
   (\<exists>ec. cc_EncryptConfig
           (fst (DecryptWithPkcs11 (Slice [blob_mod1, blob_mod2]) (Slice [blob_pin1]))) = Some ec \<and>
         dc_Parameters (ec_DecryptConfig ec) =
           Some [''modules'' \<mapsto> Slice [blob_mod1, blob_mod2], ''pins'' \<mapsto> Slice [blob_pin1]])"
proof -
  have h: "snd (EncryptWithJwe (Slice [blob_key1, blob_key2])) = None"
          "snd (EncryptWithPkcs7 (Slice [blob_cert1])) = None"
          "snd (EncryptWithGpg (Slice [blob_key1]) blob_key2) = None"
          "snd (EncryptWithPkcs11 (Slice [blob_mod1]) (Slice [blob_pin1])) = None"
          "snd (DecryptWithPrivKeys (Slice [blob_key1]) (Slice [blob_pin1])) = None"
          "snd (DecryptWithX509s (Slice [blob_cert1])) = None"
          "snd (DecryptWithGpgPrivKeys (Slice [blob_key1]) (Slice [blob_pin1])) = None"
          "snd (DecryptWithPkcs11 (Slice [blob_mod1, blob_mod2]) (Slice [blob_pin1])) = None"
    by (simp_all add: EncryptWithJwe_def EncryptWithPkcs7_def EncryptWithGpg_def
          EncryptWithPkcs11_def DecryptWithPrivKeys_def DecryptWithX509s_def
          DecryptWithGpgPrivKeys_def DecryptWithPkcs11_def Let_def)
  show ?thesis
    using h embedded_DecryptConfig_is_toplevel
            [of "Slice [blob_key1, blob_key2]" "Slice [blob_cert1]"
                "Slice [blob_key1]" blob_key2
                "Slice [blob_mod1]" "Slice [blob_pin1]"
                "Slice [blob_key1]" "Slice [blob_pin1]"
                "Slice [blob_cert1]"
                "Slice [blob_key1]" "Slice [blob_pin1]"
                "Slice [blob_mod1, blob_mod2]" "Slice [blob_pin1]"]
    by auto
qed

text \<open>
  Claim C1, as stated: in every configuration a constructor returns with the \<open>nil\<close>
  error, paired sequences have the same length, the configurations returned by
  \<open>DecryptWithPkcs11\<close> included. This fails: \<open>DecryptWithPkcs11\<close> with two modules
  and one pin, and \<open>DecryptWithGpgPrivKeys\<close> with two keys and one password, return
  the \<open>nil\<close> error and a decrypt parameter set whose paired sequences have lengths 2
  and 1.
\<close>

theorem paired_lengths_counterexample:
  "snd (DecryptWithPkcs11 (Slice [blob_mod1, blob_mod2]) (Slice [blob_pin1])) = None \<and>
   \<not> config_paired (fst (DecryptWithPkcs11 (Slice [blob_mod1, blob_mod2]) (Slice [blob_pin1]))) \<and>
   snd (DecryptWithGpgPrivKeys (Slice [blob_key1, blob_key2]) (Slice [blob_pin1])) = None \<and>
   \<not> config_paired
       (fst (DecryptWithGpgPrivKeys (Slice [blob_key1, blob_key2]) (Slice [blob_pin1])))"
  by (simp add: DecryptWithPkcs11_def DecryptWithGpgPrivKeys_def Let_def config_paired_def
        params_paired_def pair_lengths_agree_def)

text \<open>
  Claim C1, amended. In every configuration returned with the \<open>nil\<close> error by
  \<open>EncryptWithJwe\<close>, \<open>EncryptWithPkcs7\<close>, \<open>EncryptWithGpg\<close>, \<open>EncryptWithPkcs11\<close>,
  \<open>DecryptWithPrivKeys\<close> or \<open>DecryptWithX509s\<close>, paired sequences have the same
  length: the \<open>"modules"\<close> and \<open>"pins"\<close> sequences stored by \<open>EncryptWithPkcs11\<close>
  have equal length, and so have the \<open>"privkeys"\<close> and \<open>"privkeys-passwords"\<close>
  sequences stored by \<open>DecryptWithPrivKeys\<close>.
\<close>

theorem paired_lengths_of_checked_constructors:
  "(snd (EncryptWithJwe pubKeys) = None \<longrightarrow> config_paired (fst (EncryptWithJwe pubKeys))) \<and>
   (snd (EncryptWithPkcs7 x509s) = None \<longrightarrow> config_paired (fst (EncryptWithPkcs7 x509s))) \<and>
   (snd (EncryptWithGpg gpgRecipients gpgPubRingFile) = None \<longrightarrow>
      config_paired (fst (EncryptWithGpg gpgRecipients gpgPubRingFile))) \<and>
   (snd (EncryptWithPkcs11 modules pins) = None \<longrightarrow>
      config_paired (fst (EncryptWithPkcs11 modules pins)) \<and>
      (\<exists>ec ms ps. cc_EncryptConfig (fst (EncryptWithPkcs11 modules pins)) = Some ec \<and>
                  the (ec_Parameters ec) ''modules'' = Some ms \<and>
                  the (ec_Parameters ec) ''pins'' = Some ps \<and> len ms = len ps)) \<and>
   (snd (DecryptWithPrivKeys privKeys pwds) = None \<longrightarrow>
      config_paired (fst (DecryptWithPrivKeys privKeys pwds)) \<and>
      (\<exists>dc ks ws. cc_DecryptConfig (fst (DecryptWithPrivKeys privKeys pwds)) = Some dc \<and>
                  the (dc_Parameters dc) ''privkeys'' = Some ks \<and>
                  the (dc_Parameters dc) ''privkeys-passwords'' = Some ws \<and> len ks = len ws)) \<and>
   (snd (DecryptWithX509s certs) = None \<longrightarrow> config_paired (fst (DecryptWithX509s certs)))"
  by (simp add: config_paired_def params_paired_def pair_lengths_agree_def
        EncryptWithJwe_def EncryptWithPkcs7_def EncryptWithGpg_def EncryptWithPkcs11_def
        DecryptWithPrivKeys_def DecryptWithX509s_def DecryptConfig_zero_def Let_def)

theorem paired_lengths_of_checked_constructors_witness:
  "snd (EncryptWithJwe (Slice [blob_key1, blob_key2])) = None \<and>
   config_paired (fst (EncryptWithJwe (Slice [blob_key1, blob_key2]))) \<and>
   snd (EncryptWithPkcs7 (Slice [blob_cert1])) = None \<and>
   config_paired (fst (EncryptWithPkcs7 (Slice [blob_cert1]))) \<and>
   snd (EncryptWithGpg (Slice [blob_key1]) blob_key2) = None \<and>
   config_paired (fst (EncryptWithGpg (Slice [blob_key1]) blob_key2)) \<and>
   snd (EncryptWithPkcs11 (Slice [blob_mod1]) (Slice [blob_pin1])) = None \<and>
   config_paired (fst (EncryptWithPkcs11 (Slice [blob_mod1]) (Slice [blob_pin1]))) \<and>
   snd (DecryptWithPrivKeys (Slice [blob_key1, blob_key2]) (Slice [blob_pin1, blob_pin2])) = None \<and>
   config_paired
     (fst (DecryptWithPrivKeys (Slice [blob_key1, blob_key2]) (Slice [blob_pin1, blob_pin2]))) \<and>
   snd (DecryptWithX509s (Slice [blob_cert1])) = None \<and>
   config_paired (fst (DecryptWithX509s (Slice [blob_cert1])))"
proof -
  have h: "snd (EncryptWithJwe (Slice [blob_key1, blob_key2])) = None"
          "snd (EncryptWithPkcs7 (Slice [blob_cert1])) = None"
          "snd (EncryptWithGpg (Slice [blob_key1]) blob_key2) = None"
          "snd (EncryptWithPkcs11 (Slice [blob_mod1]) (Slice [blob_pin1])) = None"
          "snd (DecryptWithPrivKeys (Slice [blob_key1, blob_key2])
                                    (Slice [blob_pin1, blob_pin2])) = None"
          "snd (DecryptWithX509s (Slice [blob_cert1])) = None"
    by (simp_all add: EncryptWithJwe_def EncryptWithPkcs7_def EncryptWithGpg_def
          EncryptWithPkcs11_def DecryptWithPrivKeys_def DecryptWithX509s_def Let_def)
  show ?thesis
    using h paired_lengths_of_checked_constructors
            [of "Slice [blob_key1, blob_key2]" "Slice [blob_cert1]"
                "Slice [blob_key1]" blob_key2
                "Slice [blob_mod1]" "Slice [blob_pin1]"
                "Slice [blob_key1, blob_key2]" "Slice [blob_pin1, blob_pin2]"
                "Slice [blob_cert1]"]
    by simp
qed

section \<open>Two calls with the same arguments\<close>

text \<open>
  The model on values agrees with the model on a memory: whatever the memory a
  constructor is called in, the configuration it returns denotes the value the first
  model computes, and the error is the same.
\<close>

lemmas alloc_defs = new_map_def new_DecryptConfig_def new_EncryptConfig_def
lemmas deep_defs = load_def deep_map_def deep_DecryptConfig_def deep_EncryptConfig_def
  deep_CryptoConfig_def

lemma deep_CryptoConfig_obj_zero:
  "deep_CryptoConfig mem CryptoConfig_obj_zero = Some CryptoConfig_zero"
  by (simp add: deep_CryptoConfig_def CryptoConfig_obj_zero_def CryptoConfig_zero_def)

lemma constructor_mem_deep:
  "deep_result (constructor_mem c mem) = (Some (fst (constructor c)), snd (constructor c))"
  by (cases c)
     (simp_all add: deep_result_def alloc_defs deep_defs Let_def nth_append
        DecryptConfig_zero_def CryptoConfig_obj_zero_def CryptoConfig_zero_def
        EncryptWithJwe_mem_def EncryptWithJwe_def EncryptWithPkcs7_mem_def EncryptWithPkcs7_def
        EncryptWithGpg_mem_def EncryptWithGpg_def EncryptWithPkcs11_mem_def EncryptWithPkcs11_def
        DecryptWithPrivKeys_mem_def DecryptWithPrivKeys_def DecryptWithX509s_mem_def
        DecryptWithX509s_def DecryptWithGpgPrivKeys_mem_def DecryptWithGpgPrivKeys_def
        DecryptWithPkcs11_mem_def DecryptWithPkcs11_def)

text \<open>
  After two calls in a row, both results denote that same value in the final memory:
  the second call does not touch what the first one allocated.
\<close>

lemma constructor_mem_twice:
  assumes "call_twice (constructor_mem c) mem = ((c1, e1), (c2, e2), mem2)"
  shows "deep_CryptoConfig mem2 c1 = Some (fst (constructor c))"
    and "deep_CryptoConfig mem2 c2 = Some (fst (constructor c))"
    and "e1 = snd (constructor c)" and "e2 = snd (constructor c)"
  using assms
  by (cases c;
      auto simp add: call_twice_def alloc_defs deep_defs Let_def nth_append
        DecryptConfig_zero_def CryptoConfig_obj_zero_def CryptoConfig_zero_def
        EncryptWithJwe_mem_def EncryptWithJwe_def EncryptWithPkcs7_mem_def EncryptWithPkcs7_def
        EncryptWithGpg_mem_def EncryptWithGpg_def EncryptWithPkcs11_mem_def EncryptWithPkcs11_def
        DecryptWithPrivKeys_mem_def DecryptWithPrivKeys_def DecryptWithX509s_mem_def
        DecryptWithX509s_def DecryptWithGpgPrivKeys_mem_def DecryptWithGpgPrivKeys_def
        DecryptWithPkcs11_mem_def DecryptWithPkcs11_def split: if_splits)+

text \<open>
  When a constructor succeeds twice, the two configurations point to different
  objects: they are equal as deep values, not as pointers.
\<close>

lemma two_calls_fresh_objects:
  assumes "call_twice (constructor_mem c) mem = ((c1, e1), (c2, e2), mem2)" and "e1 = None"
  shows "cco_EncryptConfig c1 \<noteq> cco_EncryptConfig c2"
    and "cco_DecryptConfig c1 \<noteq> cco_DecryptConfig c2"
  using assms
  by (cases c;
      auto simp add: call_twice_def alloc_defs Let_def
        EncryptWithJwe_mem_def EncryptWithPkcs7_mem_def EncryptWithGpg_mem_def
        EncryptWithPkcs11_mem_def DecryptWithPrivKeys_mem_def DecryptWithX509s_mem_def
        DecryptWithGpgPrivKeys_mem_def DecryptWithPkcs11_mem_def split: if_splits)+

text \<open>
  In memory, the struct at the address \<open>&dc\<close> and the copy of \<open>dc\<close> inside the
  \<open>EncryptConfig\<close> object are the same struct value, holding the same map reference.
\<close>

lemma load_append_last: "load (xs @ [x]) (length xs) = Some x"
  by (simp add: load_def)

lemma embedded_copy_in_memory:
  assumes "constructor_mem c mem = ((cc, None), mem')"
  shows "\<exists>ea da eo. cco_EncryptConfig cc = Some ea \<and> cco_DecryptConfig cc = Some da \<and>
           load (encrypt_configs mem') ea = Some eo \<and>
           load (decrypt_configs mem') da = Some (eco_DecryptConfig eo)"
proof (cases c)
  case (Jwe a)
  with assms show ?thesis
    by (auto simp add: EncryptWithJwe_mem_def alloc_defs Let_def load_append_last)
next
  case (Pkcs7 a)
  with assms show ?thesis
    by (auto simp add: EncryptWithPkcs7_mem_def alloc_defs Let_def load_append_last)
next
  case (Gpg a b)
  with assms show ?thesis
    by (auto simp add: EncryptWithGpg_mem_def alloc_defs Let_def load_append_last)
next
  case (Pkcs11Enc a b)
  with assms show ?thesis
    by (auto simp add: EncryptWithPkcs11_mem_def alloc_defs Let_def load_append_last
          split: if_splits)
next
  case (PrivKeys a b)
  with assms show ?thesis
    by (auto simp add: DecryptWithPrivKeys_mem_def alloc_defs Let_def load_append_last
          split: if_splits)
next
  case (X509s a)
  with assms show ?thesis
    by (auto simp add: DecryptWithX509s_mem_def alloc_defs Let_def load_append_last)
next
  case (GpgPrivKeys a b)
  with assms show ?thesis
    by (auto simp add: DecryptWithGpgPrivKeys_mem_def alloc_defs Let_def load_append_last)
next
  case (Pkcs11Dec a b)
  with assms show ?thesis
    by (auto simp add: DecryptWithPkcs11_mem_def alloc_defs Let_def load_append_last)
qed

text \<open>
  Claim C8. Every constructor is deterministic. Called with the same arguments in two
  arbitrary memories, a constructor returns the same error and configurations with
  the same deep value (and there is one: no followed address is unallocated). Called
  twice in a row, it returns the same error twice and two configurations that are
  deep-equal in the final memory, so that the parameter sets of the encrypt side and
  of the decrypt side have the same contents.
\<close>

theorem constructors_deterministic:
  "deep_result (constructor_mem c mem) = deep_result (constructor_mem c mem') \<and>
   fst (deep_result (constructor_mem c mem)) \<noteq> None \<and>
   (call_twice (constructor_mem c) mem = ((c1, e1), (c2, e2), mem2) \<longrightarrow>
      e1 = e2 \<and>
      (\<exists>v1 v2. deep_CryptoConfig mem2 c1 = Some v1 \<and> deep_CryptoConfig mem2 c2 = Some v2 \<and>
         v1 = v2 \<and>
         map_option ec_Parameters (cc_EncryptConfig v1) =
           map_option ec_Parameters (cc_EncryptConfig v2) \<and>
         map_option dc_Parameters (cc_DecryptConfig v1) =
           map_option dc_Parameters (cc_DecryptConfig v2)))"
proof -
  have "deep_result (constructor_mem c mem) = deep_result (constructor_mem c mem')"
    by (simp only: constructor_mem_deep)
  moreover have "fst (deep_result (constructor_mem c mem)) \<noteq> None"
    by (simp add: constructor_mem_deep)
  moreover have "e1 = e2 \<and>
      (\<exists>v1 v2. deep_CryptoConfig mem2 c1 = Some v1 \<and> deep_CryptoConfig mem2 c2 = Some v2 \<and>
         v1 = v2 \<and>
         map_option ec_Parameters (cc_EncryptConfig v1) =
           map_option ec_Parameters (cc_EncryptConfig v2) \<and>
         map_option dc_Parameters (cc_DecryptConfig v1) =
           map_option dc_Parameters (cc_DecryptConfig v2))"
    if "call_twice (constructor_mem c) mem = ((c1, e1), (c2, e2), mem2)"
    using constructor_mem_twice [OF that] by simp
  ultimately show ?thesis by blast
qed

theorem constructors_deterministic_witness:
  "call_twice (constructor_mem (Pkcs11Dec (Slice [blob_mod1, blob_mod2]) (Slice [blob_pin1])))
     empty_memory =
     ((\<lparr>cco_EncryptConfig = Some 0, cco_DecryptConfig = Some 0\<rparr>, None),
      (\<lparr>cco_EncryptConfig = Some 1, cco_DecryptConfig = Some 1\<rparr>, None),
      \<lparr>maps = [[''modules'' \<mapsto> Slice [blob_mod1, blob_mod2], ''pins'' \<mapsto> Slice [blob_pin1]],
                Map.empty,
                [''modules'' \<mapsto> Slice [blob_mod1, blob_mod2], ''pins'' \<mapsto> Slice [blob_pin1]],
                Map.empty],
        decrypt_configs = [\<lparr>dco_Parameters = Some 0\<rparr>, \<lparr>dco_Parameters = Some 2\<rparr>],
        encrypt_configs =
          [\<lparr>eco_Parameters = Some 1, eco_DecryptConfig = \<lparr>dco_Parameters = Some 0\<rparr>\<rparr>,
           \<lparr>eco_Parameters = Some 3, eco_DecryptConfig = \<lparr>dco_Parameters = Some 2\<rparr>\<rparr>]\<rparr>) \<and>
   (\<exists>v. deep_CryptoConfig
          \<lparr>maps = [[''modules'' \<mapsto> Slice [blob_mod1, blob_mod2], ''pins'' \<mapsto> Slice [blob_pin1]],
                    Map.empty,
                    [''modules'' \<mapsto> Slice [blob_mod1, blob_mod2], ''pins'' \<mapsto> Slice [blob_pin1]],
                    Map.empty],
            decrypt_configs = [\<lparr>dco_Parameters = Some 0\<rparr>, \<lparr>dco_Parameters = Some 2\<rparr>],
            encrypt_configs =
              [\<lparr>eco_Parameters = Some 1, eco_DecryptConfig = \<lparr>dco_Parameters = Some 0\<rparr>\<rparr>,
               \<lparr>eco_Parameters = Some 3, eco_DecryptConfig = \<lparr>dco_Parameters = Some 2\<rparr>\<rparr>]\<rparr>
          \<lparr>cco_EncryptConfig = Some 0, cco_DecryptConfig = Some 0\<rparr> = Some v \<and>
        deep_CryptoConfig
          \<lparr>maps = [[''modules'' \<mapsto> Slice [blob_mod1, blob_mod2], ''pins'' \<mapsto> Slice [blob_pin1]],
                    Map.empty,
                    [''modules'' \<mapsto> Slice [blob_mod1, blob_mod2], ''pins'' \<mapsto> Slice [blob_pin1]],
                    Map.empty],
            decrypt_configs = [\<lparr>dco_Parameters = Some 0\<rparr>, \<lparr>dco_Parameters = Some 2\<rparr>],
            encrypt_configs =
              [\<lparr>eco_Parameters = Some 1, eco_DecryptConfig = \<lparr>dco_Parameters = Some 0\<rparr>\<rparr>,
               \<lparr>eco_Parameters = Some 3, eco_DecryptConfig = \<lparr>dco_Parameters = Some 2\<rparr>\<rparr>]\<rparr>
          \<lparr>cco_EncryptConfig = Some 1, cco_DecryptConfig = Some 1\<rparr> = Some v)"
proof -
  have h: "call_twice (constructor_mem (Pkcs11Dec (Slice [blob_mod1, blob_mod2]) (Slice [blob_pin1])))
     empty_memory =
     ((\<lparr>cco_EncryptConfig = Some 0, cco_DecryptConfig = Some 0\<rparr>, None),
      (\<lparr>cco_EncryptConfig = Some 1, cco_DecryptConfig = Some 1\<rparr>, None),
      \<lparr>maps = [[''modules'' \<mapsto> Slice [blob_mod1, blob_mod2], ''pins'' \<mapsto> Slice [blob_pin1]],
                Map.empty,
                [''modules'' \<mapsto> Slice [blob_mod1, blob_mod2], ''pins'' \<mapsto> Slice [blob_pin1]],
                Map.empty],
        decrypt_configs = [\<lparr>dco_Parameters = Some 0\<rparr>, \<lparr>dco_Parameters = Some 2\<rparr>],
        encrypt_configs =
          [\<lparr>eco_Parameters = Some 1, eco_DecryptConfig = \<lparr>dco_Parameters = Some 0\<rparr>\<rparr>,
           \<lparr>eco_Parameters = Some 3, eco_DecryptConfig = \<lparr>dco_Parameters = Some 2\<rparr>\<rparr>]\<rparr>)"
    by (simp add: call_twice_def DecryptWithPkcs11_mem_def alloc_defs empty_memory_def Let_def)
  show ?thesis
    using h constructors_deterministic [THEN conjunct2, THEN conjunct2, THEN mp, OF h]
    by auto
qed

end
